theory Spec2Isabelle
  imports Main
begin

section \<open>The wallet hook \<open>useWallet\<close>: data model\<close>

text \<open>
  The hook keeps one \<open>WalletState\<close> in React state and offers five asynchronous
  operations on it. Every operation talks to the wallet service (the gateway), whose
  functions are imported from a module that is not part of the hook; they are a
  parameter of the model, as is the configuration object \<open>STELLAR_CONFIG\<close>.
\<close>

record WalletState =
  address :: "string option"
  isConnected :: bool
  isConnecting :: bool
  isDisconnecting :: bool
  error :: "string option"
  isWalletAvailable :: bool
  network :: "string option"
  isWrongNetwork :: bool

text \<open>The argument of \<open>useState\<close>: the snapshot the hook starts from.\<close>

definition initialState :: WalletState where
  "initialState =
     \<lparr> address = None, isConnected = False, isConnecting = False,
       isDisconnecting = False, error = None, isWalletAvailable = False,
       network = None, isWrongNetwork = False \<rparr>"

text \<open>
  The two fields of \<open>STELLAR_CONFIG\<close> the hook reads: \<open>network\<close>, the label shown to
  the user, and \<open>networkPassphrase\<close>, the identifier compared with the wallet's network.
\<close>

record StellarConfig =
  cfg_network :: string
  cfg_networkPassphrase :: string

text \<open>
  A value thrown by a gateway call (a rejected promise). The handlers test
  \<open>error instanceof Error\<close>: an \<open>Error\<close> object carries its message, anything else
  does not.
\<close>

datatype thrown = JsError string | NonError

text \<open>\<open>error instanceof Error ? error.message : fallback\<close>\<close>

fun message_or :: "thrown \<Rightarrow> string \<Rightarrow> string" where
  "message_or (JsError m) fallback = m"
| "message_or NonError fallback = fallback"

text \<open>The object \<open>connectWallet\<close> resolves to: \<open>{ success, address?, error? }\<close>.\<close>

record ConnectResult =
  success :: bool
  res_address :: "string option"
  res_error :: "string option"

text \<open>
  JavaScript truthiness of an optional string: \<open>null\<close>, \<open>undefined\<close> and the empty
  string are falsy.
\<close>

fun truthy :: "string option \<Rightarrow> bool" where
  "truthy None = False"
| "truthy (Some s) = (s \<noteq> [])"

text \<open>\<open>s || fallback\<close> on an optional string.\<close>

definition or_else :: "string option \<Rightarrow> string \<Rightarrow> string" where
  "or_else s fallback = (if truthy s then the s else fallback)"

text \<open>
  The gateway. Each function is asynchronous and may reject, and the wallet behind it
  has a state of its own (\<open>'w\<close>) that a call may change: a call takes the wallet's state
  and gives the outcome (\<open>Inl\<close> a thrown value, \<open>Inr\<close> the resolved value) together
  with the wallet's next state.
\<close>

type_synonym ('a, 'w) gateway_call = "'w \<Rightarrow> (thrown + 'a) \<times> 'w"

record ('w, 'tx, 'r) WalletGateway =
  isWalletInstalled :: "(bool, 'w) gateway_call"
  isWalletConnected :: "(bool, 'w) gateway_call"
  getAccountAddress :: "(string option, 'w) gateway_call"
  getNetwork :: "(string option, 'w) gateway_call"
  setNetwork :: "string \<Rightarrow> (unit, 'w) gateway_call"
  connectWallet :: "(ConnectResult, 'w) gateway_call"
  disconnectWallet :: "(unit, 'w) gateway_call"
  signTransaction :: "'tx \<Rightarrow> ('r, 'w) gateway_call"

text \<open>
  What an operation does, in order: the gateway calls it makes and the snapshots it
  installs with \<open>setState\<close>.
\<close>

datatype 'tx event =
    CallIsWalletInstalled
  | CallIsWalletConnected
  | CallGetAccountAddress
  | CallGetNetwork
  | CallSetNetwork string
  | CallConnectWallet
  | CallDisconnectWallet
  | CallSignTransaction 'tx
  | SetState WalletState

text \<open>
  The environment an operation runs in: the hook's snapshot, the wallet's state, and
  the events so far (oldest first).
\<close>

record ('w, 'tx) env =
  snapshot :: WalletState
  world :: 'w
  trace :: "'tx event list"

section \<open>Primitives\<close>

text \<open>\<open>setState(prev => f(prev))\<close>: a functional update of the snapshot.\<close>

definition setState :: "(WalletState \<Rightarrow> WalletState) \<Rightarrow> ('w, 'tx) env \<Rightarrow> ('w, 'tx) env" where
  "setState f e =
     e\<lparr> snapshot := f (snapshot e), trace := trace e @ [SetState (f (snapshot e))] \<rparr>"

text \<open>An asynchronous computation of the hook: it may throw, and it changes the environment.\<close>

type_synonym ('a, 'w, 'tx) async = "('w, 'tx) env \<Rightarrow> (thrown + 'a) \<times> ('w, 'tx) env"

text \<open>One gateway call, recorded in the trace.\<close>

definition invoke :: "'tx event \<Rightarrow> ('a, 'w) gateway_call \<Rightarrow> ('a, 'w, 'tx) async" where
  "invoke c g e =
     (case g (world e) of
        (r, w') \<Rightarrow> (r, e\<lparr> world := w', trace := trace e @ [c] \<rparr>))"

text \<open>A value that needs no call (\<open>connected ? await ... : null\<close>).\<close>

definition resolve :: "'a \<Rightarrow> ('a, 'w, 'tx) async" where
  "resolve x e = (Inr x, e)"

text \<open>
  \<open>const x = await m; k(x)\<close> inside a \<open>try\<close> block: when \<open>m\<close> rejects, the rest
  of the block is skipped and the thrown value goes to the handler.
\<close>

definition await :: "('a, 'w, 'tx) async \<Rightarrow> ('a \<Rightarrow> ('b, 'w, 'tx) async) \<Rightarrow> ('b, 'w, 'tx) async" where
  "await m k e = (case m e of (Inl t, e') \<Rightarrow> (Inl t, e') | (Inr x, e') \<Rightarrow> k x e')"

section \<open>The operations\<close>

text \<open>The four reads of \<open>refresh\<close>'s \<open>try\<close> block (lines 59 to 62).\<close>

definition refresh_reads ::
  "('w, 'tx, 'r) WalletGateway \<Rightarrow> (bool \<times> bool \<times> string option \<times> string option, 'w, 'tx) async" where
  "refresh_reads gw =
     await (invoke CallIsWalletInstalled (isWalletInstalled gw)) (\<lambda>available.
     await (invoke CallIsWalletConnected (isWalletConnected gw)) (\<lambda>connected.
     await (if connected then invoke CallGetAccountAddress (getAccountAddress gw)
            else resolve None) (\<lambda>address.
     await (if connected then invoke CallGetNetwork (getNetwork gw)
            else resolve None) (\<lambda>network.
     resolve (available, connected, address, network)))))"

text \<open>\<open>refresh\<close> (lines 57 to 82). It never throws: the handler only sets the error.\<close>

definition refresh ::
  "StellarConfig \<Rightarrow> ('w, 'tx, 'r) WalletGateway \<Rightarrow> ('w, 'tx) env \<Rightarrow> ('w, 'tx) env" where
  "refresh cfg gw e =
     (case refresh_reads gw e of
        (Inr (available, connected, addr, net), e') \<Rightarrow>
          setState (\<lambda>prev. prev\<lparr>
              isWalletAvailable := available,
              isConnected := connected,
              address := addr,
              network := net,
              isWrongNetwork :=
                (connected \<and> net \<noteq> None \<and> net \<noteq> Some (cfg_networkPassphrase cfg)),
              error := None \<rparr>) e'
      | (Inl t, e') \<Rightarrow>
          setState (\<lambda>prev. prev\<lparr> error := Some (message_or t ''Unknown error'') \<rparr>) e')"

text \<open>\<open>connect\<close> (lines 87 to 114).\<close>

definition connect ::
  "StellarConfig \<Rightarrow> ('w, 'tx, 'r) WalletGateway \<Rightarrow> ('w, 'tx) env \<Rightarrow> ('w, 'tx) env" where
  "connect cfg gw e =
     (case invoke CallConnectWallet (connectWallet gw)
             (setState (\<lambda>prev. prev\<lparr> isConnecting := True, error := None \<rparr>) e) of
        (Inr result, e') \<Rightarrow>
          if success result \<and> truthy (res_address result)
          then refresh cfg gw e'
          else setState (\<lambda>prev. prev\<lparr>
                  isConnecting := False,
                  error := Some (or_else (res_error result) ''Failed to connect wallet'') \<rparr>) e'
      | (Inl t, e') \<Rightarrow>
          setState (\<lambda>prev. prev\<lparr>
              isConnecting := False,
              error := Some (message_or t ''Failed to connect wallet'') \<rparr>) e')"

text \<open>\<open>disconnect\<close> (lines 119 to 145).\<close>

definition disconnect ::
  "('w, 'tx, 'r) WalletGateway \<Rightarrow> ('w, 'tx) env \<Rightarrow> ('w, 'tx) env" where
  "disconnect gw e =
     (case invoke CallDisconnectWallet (disconnectWallet gw)
             (setState (\<lambda>prev. prev\<lparr> isDisconnecting := True, error := None \<rparr>) e) of
        (Inr u, e') \<Rightarrow>
          setState (\<lambda>prev.
            \<lparr> address = None, isConnected = False, isConnecting = False,
              isDisconnecting = False, error = None,
              isWalletAvailable = isWalletAvailable prev,
              network = None, isWrongNetwork = False \<rparr>) e'
      | (Inl t, e') \<Rightarrow>
          setState (\<lambda>prev. prev\<lparr>
              isDisconnecting := False,
              error := Some (message_or t ''Failed to disconnect wallet'') \<rparr>) e')"

text \<open>\<open>switchNetwork\<close> (lines 150 to 160).\<close>

definition switchNetwork ::
  "StellarConfig \<Rightarrow> ('w, 'tx, 'r) WalletGateway \<Rightarrow> ('w, 'tx) env \<Rightarrow> ('w, 'tx) env" where
  "switchNetwork cfg gw e =
     (case invoke (CallSetNetwork (cfg_networkPassphrase cfg))
             (setNetwork gw (cfg_networkPassphrase cfg)) e of
        (Inr u, e') \<Rightarrow> refresh cfg gw e'
      | (Inl t, e') \<Rightarrow>
          setState (\<lambda>prev. prev\<lparr>
              error := Some (message_or t ''Failed to switch network'') \<rparr>) e')"

text \<open>
  \<open>signTx\<close> (lines 165 to 183). The only operation with a result: \<open>Inl\<close> the value it
  throws, \<open>Inr\<close> what the gateway returned.

  The two guards read \<open>state.isConnected\<close> and \<open>state.isWrongNetwork\<close>, and \<open>state\<close>
  is not the snapshot at the time of the call: it is the state of the render that created
  the callback (\<open>useCallback\<close> with the two fields as dependencies, line 183). That
  state is the argument \<open>rendered\<close>. A caller that took \<open>signTx\<close> from the latest
  render passes the current snapshot; a caller that kept the callback of an earlier
  render passes the state of that render. Only the update in the handler (line 177)
  reads \<open>prev\<close>, the snapshot at the time of the update.
\<close>

definition signTx ::
  "StellarConfig \<Rightarrow> ('w, 'tx, 'r) WalletGateway \<Rightarrow> WalletState \<Rightarrow> 'tx \<Rightarrow> ('r, 'w, 'tx) async" where
  "signTx cfg gw rendered transaction e =
     (if \<not> isConnected rendered then (Inl (JsError ''Wallet not connected''), e)
      else if isWrongNetwork rendered
      then (Inl (JsError (''Wrong network. Please switch to '' @ cfg_network cfg)), e)
      else
        (case invoke (CallSignTransaction transaction) (signTransaction gw transaction) e of
           (Inr signed, e') \<Rightarrow> (Inr signed, e')
         | (Inl t, e') \<Rightarrow>
             (Inl t,
              setState (\<lambda>prev. prev\<lparr>
                  error := Some (message_or t ''Failed to sign transaction'') \<rparr>) e')))"

section \<open>Sequences of operations\<close>

text \<open>
  The calls a user of the hook can make. \<open>SignTx\<close> is \<open>signTx\<close> taken from the
  latest render; \<open>SignTxFrom s\<close> is \<open>signTx\<close> through a callback kept from a render
  whose state was \<open>s\<close>.
\<close>

datatype 'tx operation =
    Refresh
  | Connect
  | Disconnect
  | SwitchNetwork
  | SignTx 'tx
  | SignTxFrom WalletState 'tx

text \<open>
  One operation run to completion. A caller of \<open>signTx\<close> gets its result or catches
  what it throws; the snapshot the next operation sees is the same either way.
\<close>

fun perform ::
  "StellarConfig \<Rightarrow> ('w, 'tx, 'r) WalletGateway \<Rightarrow> 'tx operation \<Rightarrow> ('w, 'tx) env \<Rightarrow> ('w, 'tx) env" where
  "perform cfg gw Refresh e = refresh cfg gw e"
| "perform cfg gw Connect e = connect cfg gw e"
| "perform cfg gw Disconnect e = disconnect gw e"
| "perform cfg gw SwitchNetwork e = switchNetwork cfg gw e"
| "perform cfg gw (SignTx transaction) e = snd (signTx cfg gw (snapshot e) transaction e)"
| "perform cfg gw (SignTxFrom rendered transaction) e =
     snd (signTx cfg gw rendered transaction e)"

text \<open>Operations one after the other, each finished before the next begins.\<close>

fun run ::
  "StellarConfig \<Rightarrow> ('w, 'tx, 'r) WalletGateway \<Rightarrow> 'tx operation list \<Rightarrow> ('w, 'tx) env \<Rightarrow> ('w, 'tx) env" where
  "run cfg gw [] e = e"
| "run cfg gw (operation # rest) e = run cfg gw rest (perform cfg gw operation e)"

text \<open>The hook as mounted: the initial snapshot, nothing done yet.\<close>

definition mounted :: "'w \<Rightarrow> ('w, 'tx) env" where
  "mounted w = \<lparr> snapshot = initialState, world = w, trace = [] \<rparr>"

section \<open>Observing an operation\<close>

text \<open>The events an operation added: those of \<open>e'\<close> after the ones \<open>e\<close> already had.\<close>

definition events_since :: "('w, 'tx) env \<Rightarrow> ('w, 'tx) env \<Rightarrow> 'tx event list" where
  "events_since e e' = drop (length (trace e)) (trace e')"

text \<open>The snapshots installed by a list of events, in order.\<close>

fun updates :: "'tx event list \<Rightarrow> WalletState list" where
  "updates [] = []"
| "updates (SetState s # evs) = s # updates evs"
| "updates (ev # evs) = updates evs"

text \<open>
  \<open>isWrongNetwork\<close> as derived from the other fields: connected, on a known network,
  and that network is not the configured one.
\<close>

definition wrong_network_derived :: "StellarConfig \<Rightarrow> WalletState \<Rightarrow> bool" where
  "wrong_network_derived cfg s =
     (isWrongNetwork s =
        (isConnected s \<and> network s \<noteq> None \<and> network s \<noteq> Some (cfg_networkPassphrase cfg)))"

section \<open>Sample gateways and configurations\<close>

definition testnet_config :: StellarConfig where
  "testnet_config = \<lparr> cfg_network = ''testnet'', cfg_networkPassphrase = ''required-net'' \<rparr>"

text \<open>A gateway that answers every call of a kind the same way; the wallet has no state.\<close>

definition fixed_gateway ::
  "(thrown + bool) \<Rightarrow> (thrown + bool) \<Rightarrow> (thrown + string option) \<Rightarrow> (thrown + string option) \<Rightarrow>
   (thrown + unit) \<Rightarrow> (thrown + ConnectResult) \<Rightarrow> (thrown + unit) \<Rightarrow> (thrown + 'r) \<Rightarrow>
   (unit, 'tx, 'r) WalletGateway" where
  "fixed_gateway installed connected addr net switched conn disc signed =
     \<lparr> isWalletInstalled = (\<lambda>w. (installed, w)),
       isWalletConnected = (\<lambda>w. (connected, w)),
       getAccountAddress = (\<lambda>w. (addr, w)),
       getNetwork = (\<lambda>w. (net, w)),
       setNetwork = (\<lambda>passphrase w. (switched, w)),
       connectWallet = (\<lambda>w. (conn, w)),
       disconnectWallet = (\<lambda>w. (disc, w)),
       signTransaction = (\<lambda>transaction w. (signed, w)) \<rparr>"

text \<open>
  A wallet that works: installed, holding the account \<open>G123\<close> on the network \<open>net\<close>.
  Its state is whether the site is connected; connecting and disconnecting succeed and
  signing returns the transaction.
\<close>

definition working_wallet :: "string \<Rightarrow> (bool, string, string) WalletGateway" where
  "working_wallet net =
     \<lparr> isWalletInstalled = (\<lambda>w. (Inr True, w)),
       isWalletConnected = (\<lambda>w. (Inr w, w)),
       getAccountAddress = (\<lambda>w. (Inr (Some ''G123''), w)),
       getNetwork = (\<lambda>w. (Inr (Some net), w)),
       setNetwork = (\<lambda>passphrase w. (Inr (), w)),
       connectWallet =
         (\<lambda>w. (Inr \<lparr> success = True, res_address = Some ''G123'', res_error = None \<rparr>, True)),
       disconnectWallet = (\<lambda>w. (Inr (), False)),
       signTransaction = (\<lambda>transaction w. (Inr transaction, w)) \<rparr>"

text \<open>A connected snapshot on the right network that still shows an old error.\<close>

definition stale_error_state :: WalletState where
  "stale_error_state =
     \<lparr> address = Some ''G123'', isConnected = True, isConnecting = False,
       isDisconnecting = False, error = Some ''stale'', isWalletAvailable = True,
       network = Some ''required-net'', isWrongNetwork = False \<rparr>"

text \<open>The hook with the snapshot \<open>s\<close>, the wallet in state \<open>w\<close>, nothing done yet.\<close>

definition session :: "WalletState \<Rightarrow> 'w \<Rightarrow> ('w, 'tx) env" where
  "session s w = \<lparr> snapshot = s, world = w, trace = [] \<rparr>"

text \<open>
  A wallet that is installed but not connected, answers \<open>connectWallet\<close> with
  \<open>conn\<close>, and refuses to sign.
\<close>

definition connect_answers :: "(thrown + ConnectResult) \<Rightarrow> (unit, string, string) WalletGateway" where
  "connect_answers conn =
     fixed_gateway (Inr True) (Inr False) (Inr None) (Inr None) (Inr ()) conn (Inr ())
       (Inl (JsError ''User declined''))"

text \<open>A connected wallet whose \<open>getNetwork\<close> throws after the other reads went through.\<close>

definition network_read_fails :: "(unit, string, string) WalletGateway" where
  "network_read_fails =
     fixed_gateway (Inr True) (Inr True) (Inr (Some ''G999'')) (Inl (JsError ''wallet locked''))
       (Inr ()) (Inl NonError) (Inr ()) (Inl NonError)"

section \<open>Basic facts about the primitives\<close>

lemma updates_append: "updates (xs @ ys) = updates xs @ updates ys"
  by (induction xs rule: updates.induct) simp_all

lemma setState_snapshot: "snapshot (setState f e) = f (snapshot e)"
  by (simp add: setState_def)

lemma setState_trace: "trace (setState f e) = trace e @ [SetState (f (snapshot e))]"
  by (simp add: setState_def)

section \<open>\<open>refresh\<close>\<close>

text \<open>
  The reads leave the snapshot alone. They add gateway calls only, the first of them
  \<open>isWalletInstalled\<close>.
\<close>

lemma refresh_reads_frame:
  "snapshot (snd (refresh_reads gw e)) = snapshot e \<and>
   (\<exists>cs. trace (snd (refresh_reads gw e)) = trace e @ CallIsWalletInstalled # cs \<and> updates cs = [])"
  by (auto simp add: refresh_reads_def await_def resolve_def invoke_def
      split: prod.split sum.split)

text \<open>
  The reads throw exactly when one of the calls they reach throws: \<open>isWalletInstalled\<close>,
  or \<open>isWalletConnected\<close> after it, or, once the wallet says it is connected,
  \<open>getAccountAddress\<close> or \<open>getNetwork\<close>.
\<close>

lemma refresh_reads_throws_iff:
  "fst (refresh_reads gw e) = Inl t \<longleftrightarrow>
     fst (isWalletInstalled gw (world e)) = Inl t
   \<or> (\<exists>available w1.
        isWalletInstalled gw (world e) = (Inr available, w1) \<and>
        (fst (isWalletConnected gw w1) = Inl t
         \<or> (\<exists>w2. isWalletConnected gw w1 = (Inr True, w2) \<and>
              (fst (getAccountAddress gw w2) = Inl t
               \<or> (\<exists>addr w3. getAccountAddress gw w2 = (Inr addr, w3) \<and>
                    fst (getNetwork gw w3) = Inl t)))))"
  by (auto simp add: refresh_reads_def await_def resolve_def invoke_def
      split: prod.split sum.split)

lemma refresh_failure:
  assumes "fst (refresh_reads gw e) = Inl t"
  shows "refresh cfg gw e =
    setState (\<lambda>prev. prev\<lparr> error := Some (message_or t ''Unknown error'') \<rparr>)
      (snd (refresh_reads gw e))"
  using assms by (cases "refresh_reads gw e") (simp add: refresh_def)

lemma refresh_success:
  assumes "fst (refresh_reads gw e) = Inr (available, connected, addr, net)"
  shows "refresh cfg gw e =
    setState (\<lambda>prev. prev\<lparr>
              isWalletAvailable := available,
              isConnected := connected,
              address := addr,
              network := net,
              isWrongNetwork :=
                (connected \<and> net \<noteq> None \<and> net \<noteq> Some (cfg_networkPassphrase cfg)),
              error := None \<rparr>) (snd (refresh_reads gw e))"
  using assms by (cases "refresh_reads gw e") (simp add: refresh_def)

lemma refresh_failure_snapshot:
  assumes "fst (refresh_reads gw e) = Inl t"
  shows "snapshot (refresh cfg gw e) =
           (snapshot e)\<lparr> error := Some (message_or t ''Unknown error'') \<rparr>"
  using refresh_reads_frame [of gw e]
  by (simp add: refresh_failure [OF assms] setState_snapshot)

lemma refresh_success_snapshot:
  assumes "fst (refresh_reads gw e) = Inr (available, connected, addr, net)"
  shows "snapshot (refresh cfg gw e) =
           (snapshot e)\<lparr>
              isWalletAvailable := available,
              isConnected := connected,
              address := addr,
              network := net,
              isWrongNetwork :=
                (connected \<and> net \<noteq> None \<and> net \<noteq> Some (cfg_networkPassphrase cfg)),
              error := None \<rparr>"
  using refresh_reads_frame [of gw e]
  by (simp add: refresh_success [OF assms] setState_snapshot)

lemma refresh_trace:
  "\<exists>evs. trace (refresh cfg gw e) = trace e @ CallIsWalletInstalled # evs"
proof -
  obtain cs where tr: "trace (snd (refresh_reads gw e)) = trace e @ CallIsWalletInstalled # cs"
    using refresh_reads_frame [of gw e] by blast
  show ?thesis
    by (cases "refresh_reads gw e")
       (use tr in \<open>auto simp add: refresh_def setState_def split: sum.split\<close>)
qed

lemma refresh_first_event:
  "take 1 (events_since e (refresh cfg gw e)) = [CallIsWalletInstalled]"
  using refresh_trace [of cfg gw e] by (auto simp add: events_since_def)

lemma refresh_error:
  "error (snapshot (refresh cfg gw e)) =
     (case fst (refresh_reads gw e) of
        Inl t \<Rightarrow> Some (message_or t ''Unknown error'')
      | Inr v \<Rightarrow> None)"
proof (cases "fst (refresh_reads gw e)")
  case (Inl t)
  then show ?thesis by (simp add: refresh_failure_snapshot)
next
  case (Inr v)
  obtain available connected addr net where v: "v = (available, connected, addr, net)"
    by (cases v)
  show ?thesis using Inr unfolding v by (simp add: refresh_success_snapshot)
qed

lemma refresh_keeps_isConnecting:
  "isConnecting (snapshot (refresh cfg gw e)) = isConnecting (snapshot e)"
proof (cases "fst (refresh_reads gw e)")
  case (Inl t)
  then show ?thesis by (simp add: refresh_failure_snapshot)
next
  case (Inr v)
  obtain available connected addr net where v: "v = (available, connected, addr, net)"
    by (cases v)
  show ?thesis using Inr unfolding v by (simp add: refresh_success_snapshot)
qed

lemma refresh_keeps_isDisconnecting:
  "isDisconnecting (snapshot (refresh cfg gw e)) = isDisconnecting (snapshot e)"
proof (cases "fst (refresh_reads gw e)")
  case (Inl t)
  then show ?thesis by (simp add: refresh_failure_snapshot)
next
  case (Inr v)
  obtain available connected addr net where v: "v = (available, connected, addr, net)"
    by (cases v)
  show ?thesis using Inr unfolding v by (simp add: refresh_success_snapshot)
qed

lemma refresh_preserves_derived:
  assumes "wrong_network_derived cfg (snapshot e)"
  shows "wrong_network_derived cfg (snapshot (refresh cfg gw e))"
proof (cases "fst (refresh_reads gw e)")
  case (Inl t)
  with assms show ?thesis
    by (simp add: refresh_failure_snapshot wrong_network_derived_def)
next
  case (Inr v)
  obtain available connected addr net where v: "v = (available, connected, addr, net)"
    by (cases v)
  show ?thesis
    using Inr unfolding v
    by (simp add: refresh_success_snapshot wrong_network_derived_def)
qed

section \<open>\<open>connect\<close>\<close>

text \<open>
  When the gateway reports success with an address, all that \<open>connect\<close> does after
  its first update and the gateway call is \<open>refresh\<close>.
\<close>

lemma connect_success_is_refresh:
  assumes "connectWallet gw (world e) = (Inr res, w')" "success res" "truthy (res_address res)"
  shows "connect cfg gw e =
     refresh cfg gw
       (e\<lparr> snapshot := (snapshot e)\<lparr> isConnecting := True, error := None \<rparr>,
           world := w',
           trace := trace e @ [SetState ((snapshot e)\<lparr> isConnecting := True, error := None \<rparr>),
                               CallConnectWallet] \<rparr>)"
  using assms by (simp add: connect_def invoke_def setState_def)

text \<open>So the flag \<open>connect\<close> raised is still up when it returns.\<close>

lemma connect_success_isConnecting_stays:
  assumes "connectWallet gw (world e) = (Inr res, w')" "success res" "truthy (res_address res)"
  shows "isConnecting (snapshot (connect cfg gw e))"
  by (simp add: connect_success_is_refresh [OF assms] refresh_keeps_isConnecting)

lemma connect_snapshot_cases:
  "(\<exists>e'. connect cfg gw e = refresh cfg gw e' \<and>
          snapshot e' = (snapshot e)\<lparr> isConnecting := True, error := None \<rparr>)
 \<or> (\<exists>m. snapshot (connect cfg gw e) = (snapshot e)\<lparr> isConnecting := False, error := Some m \<rparr>)"
  by (cases "connectWallet gw (world e)")
     (auto simp add: connect_def invoke_def setState_def split: sum.split)

lemma connect_preserves_derived:
  assumes "wrong_network_derived cfg (snapshot e)"
  shows "wrong_network_derived cfg (snapshot (connect cfg gw e))"
  using connect_snapshot_cases [of cfg gw e]
proof (elim disjE exE conjE)
  fix e' :: "('a, 'b) env"
  assume c: "connect cfg gw e = refresh cfg gw e'"
    and s: "snapshot e' = (snapshot e)\<lparr> isConnecting := True, error := None \<rparr>"
  from assms s have "wrong_network_derived cfg (snapshot e')"
    by (simp add: wrong_network_derived_def)
  then show ?thesis unfolding c by (rule refresh_preserves_derived)
next
  fix m
  assume "snapshot (connect cfg gw e) = (snapshot e)\<lparr> isConnecting := False, error := Some m \<rparr>"
  with assms show ?thesis by (simp add: wrong_network_derived_def)
qed

lemma connect_keeps_isDisconnecting:
  "isDisconnecting (snapshot (connect cfg gw e)) = isDisconnecting (snapshot e)"
  using connect_snapshot_cases [of cfg gw e]
  by (auto simp add: refresh_keeps_isDisconnecting)

lemma connect_first_events:
  "take 2 (events_since e (connect cfg gw e)) =
     [SetState ((snapshot e)\<lparr> isConnecting := True, error := None \<rparr>), CallConnectWallet]"
proof (cases "connectWallet gw (world e)")
  case (Pair r w')
  show ?thesis
  proof (cases "case r of Inl t \<Rightarrow> False | Inr res \<Rightarrow> success res \<and> truthy (res_address res)")
    case True
    then obtain res where r: "r = Inr res" and ok: "success res" "truthy (res_address res)"
      by (cases r) auto
    define e1 where "e1 =
       e\<lparr> snapshot := (snapshot e)\<lparr> isConnecting := True, error := None \<rparr>,
           world := w',
           trace := trace e @ [SetState ((snapshot e)\<lparr> isConnecting := True, error := None \<rparr>),
                               CallConnectWallet] \<rparr>"
    have "connect cfg gw e = refresh cfg gw e1"
      unfolding e1_def using Pair [unfolded r] ok by (rule connect_success_is_refresh)
    moreover obtain evs where "trace (refresh cfg gw e1) = trace e1 @ CallIsWalletInstalled # evs"
      using refresh_trace [of cfg gw e1] by blast
    ultimately have "trace (connect cfg gw e) =
        trace e @ SetState ((snapshot e)\<lparr> isConnecting := True, error := None \<rparr>)
                # CallConnectWallet # CallIsWalletInstalled # evs"
      by (simp add: e1_def)
    then show ?thesis by (simp add: events_since_def)
  next
    case False
    then show ?thesis using Pair
      by (cases r) (auto simp add: connect_def invoke_def setState_def events_since_def)
  qed
qed

section \<open>\<open>disconnect\<close>\<close>

lemma disconnect_snapshot_cases:
  "snapshot (disconnect gw e) =
           \<lparr> address = None, isConnected = False, isConnecting = False,
             isDisconnecting = False, error = None,
             isWalletAvailable = isWalletAvailable (snapshot e),
             network = None, isWrongNetwork = False \<rparr>
 \<or> (\<exists>m. snapshot (disconnect gw e) = (snapshot e)\<lparr> isDisconnecting := False, error := Some m \<rparr>)"
  by (cases "disconnectWallet gw (world e)")
     (auto simp add: disconnect_def invoke_def setState_def split: sum.split)

lemma disconnect_preserves_derived:
  "wrong_network_derived cfg (snapshot e) \<Longrightarrow>
   wrong_network_derived cfg (snapshot (disconnect gw e))"
  using disconnect_snapshot_cases [of gw e]
  by (auto simp add: wrong_network_derived_def)

lemma disconnect_clears_isDisconnecting:
  "\<not> isDisconnecting (snapshot (disconnect gw e))"
  using disconnect_snapshot_cases [of gw e] by auto

lemma disconnect_first_events:
  "take 2 (events_since e (disconnect gw e)) =
     [SetState ((snapshot e)\<lparr> isDisconnecting := True, error := None \<rparr>), CallDisconnectWallet]"
  by (cases "disconnectWallet gw (world e)")
     (auto simp add: disconnect_def invoke_def setState_def events_since_def split: sum.split)

section \<open>\<open>switchNetwork\<close>\<close>

lemma switchNetwork_outcome:
  "(case setNetwork gw (cfg_networkPassphrase cfg) (world e) of
      (Inl t, w') \<Rightarrow>
        snapshot (switchNetwork cfg gw e) =
          (snapshot e)\<lparr> error := Some (message_or t ''Failed to switch network'') \<rparr>
    | (Inr u, w') \<Rightarrow>
        switchNetwork cfg gw e =
          refresh cfg gw
            (e\<lparr> world := w',
                trace := trace e @ [CallSetNetwork (cfg_networkPassphrase cfg)] \<rparr>))"
  by (simp add: switchNetwork_def invoke_def setState_def split: prod.split sum.split)

lemma switchNetwork_snapshot_cases:
  "(\<exists>e'. switchNetwork cfg gw e = refresh cfg gw e' \<and> snapshot e' = snapshot e)
 \<or> (\<exists>m. snapshot (switchNetwork cfg gw e) = (snapshot e)\<lparr> error := Some m \<rparr>)"
  by (cases "setNetwork gw (cfg_networkPassphrase cfg) (world e)")
     (auto simp add: switchNetwork_def invoke_def setState_def split: sum.split)

lemma switchNetwork_preserves_derived:
  assumes "wrong_network_derived cfg (snapshot e)"
  shows "wrong_network_derived cfg (snapshot (switchNetwork cfg gw e))"
  using switchNetwork_snapshot_cases [of cfg gw e]
proof (elim disjE exE conjE)
  fix e' :: "('a, 'b) env"
  assume c: "switchNetwork cfg gw e = refresh cfg gw e'" and s: "snapshot e' = snapshot e"
  from assms s have "wrong_network_derived cfg (snapshot e')" by simp
  then show ?thesis unfolding c by (rule refresh_preserves_derived)
next
  fix m
  assume "snapshot (switchNetwork cfg gw e) = (snapshot e)\<lparr> error := Some m \<rparr>"
  with assms show ?thesis by (simp add: wrong_network_derived_def)
qed

lemma switchNetwork_keeps_isDisconnecting:
  "isDisconnecting (snapshot (switchNetwork cfg gw e)) = isDisconnecting (snapshot e)"
  using switchNetwork_snapshot_cases [of cfg gw e]
  by (auto simp add: refresh_keeps_isDisconnecting)

lemma switchNetwork_first_event:
  "take 1 (events_since e (switchNetwork cfg gw e)) =
     [CallSetNetwork (cfg_networkPassphrase cfg)]"
proof (cases "setNetwork gw (cfg_networkPassphrase cfg) (world e)")
  case (Pair r w')
  show ?thesis
  proof (cases r)
    case (Inl t)
    with Pair show ?thesis
      by (simp add: switchNetwork_def invoke_def setState_def events_since_def)
  next
    case (Inr u)
    define e1 where "e1 =
       e\<lparr> world := w', trace := trace e @ [CallSetNetwork (cfg_networkPassphrase cfg)] \<rparr>"
    have "switchNetwork cfg gw e = refresh cfg gw e1"
      using Pair Inr by (simp add: switchNetwork_def invoke_def e1_def)
    moreover obtain evs where "trace (refresh cfg gw e1) = trace e1 @ CallIsWalletInstalled # evs"
      using refresh_trace [of cfg gw e1] by blast
    ultimately have "trace (switchNetwork cfg gw e) =
        trace e @ CallSetNetwork (cfg_networkPassphrase cfg) # CallIsWalletInstalled # evs"
      by (simp add: e1_def)
    then show ?thesis by (simp add: events_since_def)
  qed
qed

section \<open>\<open>signTx\<close>\<close>

lemma signTx_snapshot_cases:
  "snapshot (snd (signTx cfg gw rendered transaction e)) = snapshot e
 \<or> (\<exists>m. snapshot (snd (signTx cfg gw rendered transaction e)) =
        (snapshot e)\<lparr> error := Some m \<rparr>)"
  by (cases "signTransaction gw transaction (world e)")
     (auto simp add: signTx_def invoke_def setState_def split: sum.split)

lemma signTx_preserves_derived:
  "wrong_network_derived cfg (snapshot e) \<Longrightarrow>
   wrong_network_derived cfg (snapshot (snd (signTx cfg gw rendered transaction e)))"
  using signTx_snapshot_cases [of cfg gw rendered transaction e]
  by (auto simp add: wrong_network_derived_def)

lemma signTx_keeps_isDisconnecting:
  "isDisconnecting (snapshot (snd (signTx cfg gw rendered transaction e))) =
     isDisconnecting (snapshot e)"
  using signTx_snapshot_cases [of cfg gw rendered transaction e] by auto

lemma signTx_error:
  "error (snapshot (snd (signTx cfg gw rendered transaction e))) =
     (if isConnected rendered \<and> \<not> isWrongNetwork rendered
      then (case fst (signTransaction gw transaction (world e)) of
              Inl t \<Rightarrow> Some (message_or t ''Failed to sign transaction'')
            | Inr signed \<Rightarrow> error (snapshot e))
      else error (snapshot e))"
  by (cases "signTransaction gw transaction (world e)")
     (simp add: signTx_def invoke_def setState_def split: sum.split)

section \<open>Sequences of operations keep the invariants\<close>

lemma perform_preserves_derived:
  "wrong_network_derived cfg (snapshot e) \<Longrightarrow>
   wrong_network_derived cfg (snapshot (perform cfg gw operation e))"
  by (cases operation)
     (simp_all add: refresh_preserves_derived connect_preserves_derived
        disconnect_preserves_derived switchNetwork_preserves_derived signTx_preserves_derived)

lemma run_preserves_derived:
  "wrong_network_derived cfg (snapshot e) \<Longrightarrow>
   wrong_network_derived cfg (snapshot (run cfg gw ops e))"
  by (induction ops arbitrary: e) (simp_all add: perform_preserves_derived)

text \<open>
  No completed operation leaves \<open>isDisconnecting\<close> set: \<open>disconnect\<close> clears it on both
  of its exits and nothing else writes it.
\<close>

lemma perform_not_disconnecting:
  "\<not> isDisconnecting (snapshot e) \<Longrightarrow>
   \<not> isDisconnecting (snapshot (perform cfg gw operation e))"
  by (cases operation)
     (simp_all add: refresh_keeps_isDisconnecting connect_keeps_isDisconnecting
        disconnect_clears_isDisconnecting switchNetwork_keeps_isDisconnecting
        signTx_keeps_isDisconnecting)

lemma run_not_disconnecting:
  "\<not> isDisconnecting (snapshot e) \<Longrightarrow> \<not> isDisconnecting (snapshot (run cfg gw ops e))"
  by (induction ops arbitrary: e) (simp_all add: perform_not_disconnecting)

section \<open>The claims\<close>

subsection \<open>C1: a successful connect\<close>

text \<open>
  C1 says that after \<open>connect\<close>, when the gateway reported success with a non-empty
  address, the snapshot has \<open>isConnecting = false\<close>, the connection fields being those
  \<open>refresh\<close> read. The connection fields are indeed those of \<open>refresh\<close>, but
  \<open>isConnecting\<close> is not cleared: \<open>connect\<close> raises the flag, and on this path only
  \<open>refresh\<close> runs afterwards, which carries the flag over (lemma
  \<open>connect_success_isConnecting_stays\<close> for every such call). Here the hook is freshly
  mounted, the wallet accepts the connection for the account \<open>G123\<close> on the required
  network, and the flag is still set when \<open>connect\<close> has returned.
\<close>

theorem connect_success_leaves_isConnecting:
  "snapshot (connect testnet_config (working_wallet ''required-net'') (mounted False)) =
     \<lparr> address = Some ''G123'', isConnected = True, isConnecting = True,
       isDisconnecting = False, error = None, isWalletAvailable = True,
       network = Some ''required-net'', isWrongNetwork = False \<rparr>"
  by (simp add: connect_def refresh_def refresh_reads_def await_def resolve_def invoke_def
      setState_def working_wallet_def testnet_config_def mounted_def initialState_def)

subsection \<open>C2: \<open>isWrongNetwork\<close> is derived\<close>

text \<open>
  C2: after every sequence of operations, started from the initial snapshot, against any
  gateway, \<open>isWrongNetwork\<close> is true if and only if \<open>isConnected\<close> is true, \<open>network\<close>
  is not null and \<open>network\<close> differs from the configured network identifier.
\<close>

theorem wrong_network_flag_invariant:
  "isWrongNetwork (snapshot (run cfg gw ops (mounted w))) =
     (isConnected (snapshot (run cfg gw ops (mounted w)))
      \<and> network (snapshot (run cfg gw ops (mounted w))) \<noteq> None
      \<and> network (snapshot (run cfg gw ops (mounted w))) \<noteq> Some (cfg_networkPassphrase cfg))"
proof -
  have "wrong_network_derived cfg (snapshot (mounted w))"
    by (simp add: wrong_network_derived_def mounted_def initialState_def)
  then have "wrong_network_derived cfg (snapshot (run cfg gw ops (mounted w)))"
    by (rule run_preserves_derived)
  then show ?thesis by (simp add: wrong_network_derived_def)
qed

text \<open>Connecting to a wallet on another network and signing: the flag is set.\<close>

theorem wrong_network_flag_invariant_witness:
  "isWrongNetwork (snapshot (run testnet_config (working_wallet ''public-net'')
       [Connect, SignTx ''tx''] (mounted False))) =
     (isConnected (snapshot (run testnet_config (working_wallet ''public-net'')
       [Connect, SignTx ''tx''] (mounted False)))
      \<and> network (snapshot (run testnet_config (working_wallet ''public-net'')
       [Connect, SignTx ''tx''] (mounted False))) \<noteq> None
      \<and> network (snapshot (run testnet_config (working_wallet ''public-net'')
       [Connect, SignTx ''tx''] (mounted False))) \<noteq> Some (cfg_networkPassphrase testnet_config))
   \<and> isWrongNetwork (snapshot (run testnet_config (working_wallet ''public-net'')
       [Connect, SignTx ''tx''] (mounted False)))"
  using wrong_network_flag_invariant
    [of testnet_config "working_wallet ''public-net''" "[Connect, SignTx ''tx'']" False]
  by (simp add: connect_def refresh_def refresh_reads_def await_def resolve_def invoke_def
      signTx_def setState_def working_wallet_def testnet_config_def mounted_def initialState_def)

subsection \<open>C3: a failed refresh\<close>

text \<open>
  C3: when a gateway call made by \<open>refresh\<close> throws, the resulting snapshot is the
  previous one in every field but \<open>error\<close>, which holds the failure message (the
  thrown \<open>Error\<close>'s message, \<open>Unknown error\<close> for any other thrown value). That is the
  only snapshot \<open>refresh\<close> installs: nothing read before the failure is applied.
\<close>

theorem refresh_failure_changes_only_error:
  assumes "fst (refresh_reads gw e) = Inl t"
  shows "snapshot (refresh cfg gw e) =
           (snapshot e)\<lparr> error := Some (message_or t ''Unknown error'') \<rparr>
       \<and> updates (events_since e (refresh cfg gw e)) =
           [(snapshot e)\<lparr> error := Some (message_or t ''Unknown error'') \<rparr>]"
proof -
  obtain cs where snap: "snapshot (snd (refresh_reads gw e)) = snapshot e"
    and tr: "trace (snd (refresh_reads gw e)) = trace e @ CallIsWalletInstalled # cs"
    and cs: "updates cs = []"
    using refresh_reads_frame [of gw e] by blast
  have r: "refresh cfg gw e =
    setState (\<lambda>prev. prev\<lparr> error := Some (message_or t ''Unknown error'') \<rparr>)
      (snd (refresh_reads gw e))"
    using assms by (rule refresh_failure)
  have "snapshot (refresh cfg gw e) =
          (snapshot e)\<lparr> error := Some (message_or t ''Unknown error'') \<rparr>"
    by (simp add: r setState_snapshot snap)
  moreover have "trace (refresh cfg gw e) = trace e @
      (CallIsWalletInstalled # cs @
        [SetState ((snapshot e)\<lparr> error := Some (message_or t ''Unknown error'') \<rparr>)])"
    by (simp add: r setState_trace snap tr)
  then have "updates (events_since e (refresh cfg gw e)) =
           [(snapshot e)\<lparr> error := Some (message_or t ''Unknown error'') \<rparr>]"
    by (simp add: events_since_def updates_append cs)
  ultimately show ?thesis by simp
qed

text \<open>
  The wallet reports another account (\<open>G999\<close>) and then fails to give its network: the
  snapshot keeps the old account and only shows the error.
\<close>

theorem refresh_failure_changes_only_error_witness:
  "fst (refresh_reads network_read_fails (session stale_error_state ())) =
     Inl (JsError ''wallet locked'')
   \<and> snapshot (refresh testnet_config network_read_fails (session stale_error_state ())) =
       \<lparr> address = Some ''G123'', isConnected = True, isConnecting = False,
         isDisconnecting = False, error = Some ''wallet locked'', isWalletAvailable = True,
         network = Some ''required-net'', isWrongNetwork = False \<rparr>
   \<and> updates (events_since (session stale_error_state ())
        (refresh testnet_config network_read_fails (session stale_error_state ()))) =
       [\<lparr> address = Some ''G123'', isConnected = True, isConnecting = False,
          isDisconnecting = False, error = Some ''wallet locked'', isWalletAvailable = True,
          network = Some ''required-net'', isWrongNetwork = False \<rparr>]"
proof -
  have h: "fst (refresh_reads network_read_fails (session stale_error_state ())) =
     Inl (JsError ''wallet locked'')"
    by (simp add: refresh_reads_def await_def resolve_def invoke_def network_read_fails_def
        fixed_gateway_def session_def)
  show ?thesis
    using h refresh_failure_changes_only_error [OF h, of testnet_config]
    by (simp add: session_def stale_error_state_def)
qed

subsection \<open>C4: when \<open>error\<close> is cleared\<close>

text \<open>
  C4 says that each of the five operations clears \<open>error\<close> when it starts, whatever
  its outcome. \<open>signTx\<close> does not: here the wallet is connected on the right network,
  the snapshot shows an old error, \<open>signTx\<close> is the callback of the render of that
  snapshot, the gateway signs, and all \<open>signTx\<close> did is the gateway call; the old error
  is still there.
\<close>

theorem signTx_keeps_stale_error:
  "error (snapshot (snd (signTx testnet_config (working_wallet ''required-net'')
      stale_error_state ''tx'' (session stale_error_state True)))) = Some ''stale''
   \<and> events_since (session stale_error_state True)
       (snd (signTx testnet_config (working_wallet ''required-net'')
          stale_error_state ''tx'' (session stale_error_state True))) =
       [CallSignTransaction ''tx'']"
  by (simp add: signTx_def invoke_def events_since_def working_wallet_def session_def
      stale_error_state_def)

text \<open>
  C4 as amended. \<open>connect\<close> and \<open>disconnect\<close> clear \<open>error\<close> when they start: the
  first thing each does is install the previous snapshot with its pending flag set and
  \<open>error\<close> null, and the gateway call comes second, so this holds whatever the outcome.
  \<open>refresh\<close> and \<open>switchNetwork\<close> start with a gateway call and write \<open>error\<close> only
  when they finish: \<open>refresh\<close> leaves null when its reads went through and the failure
  message otherwise; \<open>switchNetwork\<close> leaves its own failure message when \<open>setNetwork\<close>
  throws and is a \<open>refresh\<close> otherwise. \<open>signTx\<close> never clears \<open>error\<close>: it stays as
  it was, unless the gateway's signing call throws, when it becomes the failure message
  (whichever render the callback is from: \<open>rendered\<close> is the state its guards read).
\<close>

theorem error_reset_by_operation:
  "take 2 (events_since e (connect cfg gw e)) =
     [SetState ((snapshot e)\<lparr> isConnecting := True, error := None \<rparr>), CallConnectWallet]
 \<and> take 2 (events_since e (disconnect gw e)) =
     [SetState ((snapshot e)\<lparr> isDisconnecting := True, error := None \<rparr>), CallDisconnectWallet]
 \<and> take 1 (events_since e (refresh cfg gw e)) = [CallIsWalletInstalled]
 \<and> error (snapshot (refresh cfg gw e)) =
     (case fst (refresh_reads gw e) of
        Inl t \<Rightarrow> Some (message_or t ''Unknown error'')
      | Inr v \<Rightarrow> None)
 \<and> take 1 (events_since e (switchNetwork cfg gw e)) =
     [CallSetNetwork (cfg_networkPassphrase cfg)]
 \<and> (case setNetwork gw (cfg_networkPassphrase cfg) (world e) of
      (Inl t, w') \<Rightarrow>
        snapshot (switchNetwork cfg gw e) =
          (snapshot e)\<lparr> error := Some (message_or t ''Failed to switch network'') \<rparr>
    | (Inr u, w') \<Rightarrow>
        switchNetwork cfg gw e =
          refresh cfg gw
            (e\<lparr> world := w',
                trace := trace e @ [CallSetNetwork (cfg_networkPassphrase cfg)] \<rparr>))
 \<and> error (snapshot (snd (signTx cfg gw rendered transaction e))) =
     (if isConnected rendered \<and> \<not> isWrongNetwork rendered
      then (case fst (signTransaction gw transaction (world e)) of
              Inl t \<Rightarrow> Some (message_or t ''Failed to sign transaction'')
            | Inr signed \<Rightarrow> error (snapshot e))
      else error (snapshot e))"
  by (intro conjI connect_first_events disconnect_first_events refresh_first_event
      refresh_error switchNetwork_first_event switchNetwork_outcome signTx_error)

text \<open>
  The same snapshot with the old error, a wallet that declines to connect: the first
  snapshot \<open>connect\<close> and \<open>disconnect\<close> install has no error, and \<open>signTx\<close>, which
  the gateway refuses, replaces it.
\<close>

theorem error_reset_by_operation_witness:
  "take 2 (events_since (session stale_error_state ())
      (connect testnet_config
         (connect_answers (Inr \<lparr> success = False, res_address = None, res_error = None \<rparr>))
         (session stale_error_state ()))) =
     [SetState \<lparr> address = Some ''G123'', isConnected = True, isConnecting = True,
         isDisconnecting = False, error = None, isWalletAvailable = True,
         network = Some ''required-net'', isWrongNetwork = False \<rparr>,
      CallConnectWallet]
 \<and> take 2 (events_since (session stale_error_state ())
      (disconnect
         (connect_answers (Inr \<lparr> success = False, res_address = None, res_error = None \<rparr>))
         (session stale_error_state ()))) =
     [SetState \<lparr> address = Some ''G123'', isConnected = True, isConnecting = False,
         isDisconnecting = True, error = None, isWalletAvailable = True,
         network = Some ''required-net'', isWrongNetwork = False \<rparr>,
      CallDisconnectWallet]
 \<and> error (snapshot (snd (signTx testnet_config
      (connect_answers (Inr \<lparr> success = False, res_address = None, res_error = None \<rparr>))
      stale_error_state ''tx'' (session stale_error_state ())))) = Some ''User declined''"
  using error_reset_by_operation
    [where e = "session stale_error_state () :: (unit, string) env"
       and cfg = testnet_config
       and gw = "connect_answers
          (Inr \<lparr> success = False, res_address = None, res_error = None \<rparr>)"
       and rendered = stale_error_state
       and transaction = "''tx''"]
  by (simp add: session_def stale_error_state_def connect_answers_def fixed_gateway_def)

subsection \<open>C5: the preconditions of \<open>signTx\<close>\<close>




subsection \<open>C6: a successful disconnect\<close>

text \<open>
  C6: for every previous snapshot, when the gateway's disconnect call succeeds, the
  snapshot after \<open>disconnect\<close> has \<open>isConnected = false\<close>, \<open>address = null\<close>,
  \<open>network = null\<close>, \<open>isWrongNetwork = false\<close>, \<open>isConnecting = false\<close>,
  \<open>isDisconnecting = false\<close> and \<open>error = null\<close>, and \<open>isWalletAvailable\<close> as it was
  before the call.
\<close>

theorem disconnect_success_resets:
  assumes "fst (disconnectWallet gw (world e)) = Inr u"
  shows "snapshot (disconnect gw e) =
           \<lparr> address = None, isConnected = False, isConnecting = False,
             isDisconnecting = False, error = None,
             isWalletAvailable = isWalletAvailable (snapshot e),
             network = None, isWrongNetwork = False \<rparr>"
  using assms
  by (cases "disconnectWallet gw (world e)")
     (simp add: disconnect_def invoke_def setState_def)

theorem disconnect_success_resets_witness:
  "fst (disconnectWallet (working_wallet ''required-net'')
      (world (session stale_error_state True :: (bool, string) env))) = Inr ()
 \<and> snapshot (disconnect (working_wallet ''required-net'')
      (session stale_error_state True :: (bool, string) env)) =
     \<lparr> address = None, isConnected = False, isConnecting = False,
       isDisconnecting = False, error = None, isWalletAvailable = True,
       network = None, isWrongNetwork = False \<rparr>"
proof -
  have h: "fst (disconnectWallet (working_wallet ''required-net'')
      (world (session stale_error_state True :: (bool, string) env))) = Inr ()"
    by (simp add: working_wallet_def)
  show ?thesis
    using h disconnect_success_resets [OF h]
    by (simp add: session_def stale_error_state_def)
qed

subsection \<open>C7: the pending flags\<close>

text \<open>
  C7: after every sequence of operations, each run to completion before the next
  begins, at most one of \<open>isConnecting\<close> and \<open>isDisconnecting\<close> is true in the
  resulting snapshot.
\<close>

theorem pending_flags_exclusive:
  "\<not> (isConnecting (snapshot (run cfg gw ops (mounted w)))
      \<and> isDisconnecting (snapshot (run cfg gw ops (mounted w))))"
proof -
  have "\<not> isDisconnecting (snapshot (mounted w))"
    by (simp add: mounted_def initialState_def)
  then have "\<not> isDisconnecting (snapshot (run cfg gw ops (mounted w)))"
    by (rule run_not_disconnecting)
  then show ?thesis by simp
qed

text \<open>After a connect that went through, one of the two flags is set.\<close>

theorem pending_flags_exclusive_witness:
  "\<not> (isConnecting (snapshot (run testnet_config (working_wallet ''required-net'')
          [Connect, Refresh] (mounted False)))
      \<and> isDisconnecting (snapshot (run testnet_config (working_wallet ''required-net'')
          [Connect, Refresh] (mounted False))))
   \<and> isConnecting (snapshot (run testnet_config (working_wallet ''required-net'')
          [Connect, Refresh] (mounted False)))"
  using pending_flags_exclusive
    [of testnet_config "working_wallet ''required-net''" "[Connect, Refresh]" False]
  by (simp add: connect_def refresh_def refresh_reads_def await_def resolve_def invoke_def
      setState_def working_wallet_def testnet_config_def mounted_def initialState_def)

text \<open>
  The statement is about completed operations. While a \<open>disconnect\<close> that follows
  such a connect is in flight, the snapshot it first installs has both flags set.
\<close>

lemma both_flags_while_disconnecting:
  "take 1 (updates (events_since
      (connect testnet_config (working_wallet ''required-net'') (mounted False))
      (disconnect (working_wallet ''required-net'')
         (connect testnet_config (working_wallet ''required-net'') (mounted False))))) =
     [\<lparr> address = Some ''G123'', isConnected = True, isConnecting = True,
        isDisconnecting = True, error = None, isWalletAvailable = True,
        network = Some ''required-net'', isWrongNetwork = False \<rparr>]"
  by (simp add: connect_def disconnect_def refresh_def refresh_reads_def await_def resolve_def
      invoke_def setState_def events_since_def working_wallet_def testnet_config_def
      mounted_def initialState_def)

subsection \<open>C8: a failed connect\<close>

text \<open>
  C8: when the gateway's connect call throws, reports failure, or reports success
  without an address, the snapshot after \<open>connect\<close> is the one before the call with
  \<open>isConnecting = false\<close> and \<open>error\<close> set. When the call throws an \<open>Error\<close>,
  \<open>error\<close> is that \<open>Error\<close>'s message; when it throws anything else, \<open>error\<close> is
  \<open>Failed to connect wallet\<close>. When the call returns a result without success or
  without an address (null or empty), \<open>error\<close> is the reason the result carries, and
  \<open>Failed to connect wallet\<close> when it carries none (null or empty). Every other field
  is as it was before the call.
\<close>

theorem connect_failure_keeps_state:
  "(fst (connectWallet gw (world e)) = Inl (JsError m) \<longrightarrow>
      snapshot (connect cfg gw e) =
        (snapshot e)\<lparr> isConnecting := False, error := Some m \<rparr>)
 \<and> (fst (connectWallet gw (world e)) = Inl NonError \<longrightarrow>
      snapshot (connect cfg gw e) =
        (snapshot e)\<lparr> isConnecting := False, error := Some ''Failed to connect wallet'' \<rparr>)
 \<and> (fst (connectWallet gw (world e)) = Inr res
      \<and> (\<not> success res \<or> res_address res = None \<or> res_address res = Some [])
      \<and> res_error res = Some reason \<and> reason \<noteq> [] \<longrightarrow>
      snapshot (connect cfg gw e) =
        (snapshot e)\<lparr> isConnecting := False, error := Some reason \<rparr>)
 \<and> (fst (connectWallet gw (world e)) = Inr res
      \<and> (\<not> success res \<or> res_address res = None \<or> res_address res = Some [])
      \<and> (res_error res = None \<or> res_error res = Some []) \<longrightarrow>
      snapshot (connect cfg gw e) =
        (snapshot e)\<lparr> isConnecting := False, error := Some ''Failed to connect wallet'' \<rparr>)"
proof (cases "connectWallet gw (world e)")
  case (Pair r w')
  have fails: "\<not> (success res \<and> truthy (res_address res))"
    if "\<not> success res \<or> res_address res = None \<or> res_address res = Some []"
    using that by auto
  have given: "or_else (res_error res) ''Failed to connect wallet'' = reason"
    if "res_error res = Some reason" "reason \<noteq> []"
    using that by (simp add: or_else_def)
  have generic: "or_else (res_error res) ''Failed to connect wallet'' = ''Failed to connect wallet''"
    if "res_error res = None \<or> res_error res = Some []"
    using that by (auto simp add: or_else_def)
  show ?thesis
  proof (cases r)
    case (Inl t)
    with Pair show ?thesis
      by (cases t) (simp_all add: connect_def invoke_def setState_def)
  next
    case (Inr result)
    with Pair fails given generic show ?thesis
      by (auto simp add: connect_def invoke_def setState_def)
  qed
qed

text \<open>
  A wallet extension that throws an \<open>Error\<close>, a call that throws something that is not
  an \<open>Error\<close>, a user who rejects the request, and a wallet that reports success with
  an empty address and no reason.
\<close>

theorem connect_failure_keeps_state_witness:
  "fst (connectWallet (connect_answers (Inl (JsError ''Extension crashed'')))
      (world (session stale_error_state () :: (unit, string) env))) =
     Inl (JsError ''Extension crashed'')
 \<and> snapshot (connect testnet_config (connect_answers (Inl (JsError ''Extension crashed'')))
      (session stale_error_state ())) =
     \<lparr> address = Some ''G123'', isConnected = True, isConnecting = False,
       isDisconnecting = False, error = Some ''Extension crashed'',
       isWalletAvailable = True, network = Some ''required-net'', isWrongNetwork = False \<rparr>
 \<and> fst (connectWallet (connect_answers (Inl NonError))
      (world (session stale_error_state () :: (unit, string) env))) = Inl NonError
 \<and> snapshot (connect testnet_config (connect_answers (Inl NonError))
      (session stale_error_state ())) =
     \<lparr> address = Some ''G123'', isConnected = True, isConnecting = False,
       isDisconnecting = False, error = Some ''Failed to connect wallet'',
       isWalletAvailable = True, network = Some ''required-net'', isWrongNetwork = False \<rparr>
 \<and> \<not> success \<lparr> success = False, res_address = None, res_error = Some ''User rejected'' \<rparr>
 \<and> snapshot (connect testnet_config
      (connect_answers
         (Inr \<lparr> success = False, res_address = None, res_error = Some ''User rejected'' \<rparr>))
      (mounted ())) =
     \<lparr> address = None, isConnected = False, isConnecting = False,
       isDisconnecting = False, error = Some ''User rejected'',
       isWalletAvailable = False, network = None, isWrongNetwork = False \<rparr>
 \<and> res_address \<lparr> success = True, res_address = Some [], res_error = None \<rparr> = Some []
 \<and> snapshot (connect testnet_config
      (connect_answers (Inr \<lparr> success = True, res_address = Some [], res_error = None \<rparr>))
      (mounted ())) =
     \<lparr> address = None, isConnected = False, isConnecting = False,
       isDisconnecting = False, error = Some ''Failed to connect wallet'',
       isWalletAvailable = False, network = None, isWrongNetwork = False \<rparr>"
proof -
  have crashed: "fst (connectWallet (connect_answers (Inl (JsError ''Extension crashed'')))
      (world (session stale_error_state () :: (unit, string) env))) =
     Inl (JsError ''Extension crashed'')"
    by (simp add: connect_answers_def fixed_gateway_def)
  have thrown: "fst (connectWallet (connect_answers (Inl NonError))
      (world (session stale_error_state () :: (unit, string) env))) = Inl NonError"
    by (simp add: connect_answers_def fixed_gateway_def)
  have rejected: "fst (connectWallet
      (connect_answers
         (Inr \<lparr> success = False, res_address = None, res_error = Some ''User rejected'' \<rparr>))
      (world (mounted () :: (unit, string) env))) =
      Inr \<lparr> success = False, res_address = None, res_error = Some ''User rejected'' \<rparr>"
    by (simp add: connect_answers_def fixed_gateway_def)
  have no_address: "fst (connectWallet
      (connect_answers (Inr \<lparr> success = True, res_address = Some [], res_error = None \<rparr>))
      (world (mounted () :: (unit, string) env))) =
      Inr \<lparr> success = True, res_address = Some [], res_error = None \<rparr>"
    by (simp add: connect_answers_def fixed_gateway_def)
  show ?thesis
    using crashed thrown rejected no_address
      connect_failure_keeps_state
        [where gw = "connect_answers (Inl (JsError ''Extension crashed''))"
           and e = "session stale_error_state () :: (unit, string) env"
           and m = "''Extension crashed''" and cfg = testnet_config]
      connect_failure_keeps_state
        [where gw = "connect_answers (Inl NonError)"
           and e = "session stale_error_state () :: (unit, string) env"
           and cfg = testnet_config]
      connect_failure_keeps_state
        [where gw = "connect_answers
             (Inr \<lparr> success = False, res_address = None, res_error = Some ''User rejected'' \<rparr>)"
           and e = "mounted () :: (unit, string) env"
           and res = "\<lparr> success = False, res_address = None, res_error = Some ''User rejected'' \<rparr>"
           and reason = "''User rejected''"
           and cfg = testnet_config]
      connect_failure_keeps_state
        [where gw = "connect_answers
             (Inr \<lparr> success = True, res_address = Some [], res_error = None \<rparr>)"
           and e = "mounted () :: (unit, string) env"
           and res = "\<lparr> success = True, res_address = Some [], res_error = None \<rparr>"
           and cfg = testnet_config]
    by (simp add: session_def stale_error_state_def mounted_def initialState_def)
qed

subsection \<open>C9: the gateway's answer to \<open>signTx\<close>\<close>

text \<open>
  C9: when the preconditions of \<open>signTx\<close> hold, that is, when the state its guards
  read (\<open>rendered\<close>, the state of the render that created the callback; the current
  snapshot for a callback of the latest render) has \<open>isConnected = true\<close> and
  \<open>isWrongNetwork = false\<close>, \<open>signTx\<close> calls the gateway. When the call throws,
  \<open>signTx\<close> sets \<open>error\<close> in the current snapshot to the failure message (the thrown
  \<open>Error\<close>'s message, \<open>Failed to sign transaction\<close> for any other thrown value) and
  throws the same value again. When the call succeeds, \<open>signTx\<close> returns the
  gateway's result as it is and installs no snapshot, so \<open>error\<close> is what it was.
\<close>

theorem signTx_gateway_outcome:
  assumes "isConnected rendered" and "\<not> isWrongNetwork rendered"
  shows "(signTransaction gw transaction (world e) = (Inl t, w') \<longrightarrow>
            signTx cfg gw rendered transaction e =
              (Inl t,
               e\<lparr> snapshot :=
                     (snapshot e)\<lparr> error :=
                        Some (case t of JsError m \<Rightarrow> m
                                      | NonError \<Rightarrow> ''Failed to sign transaction'') \<rparr>,
                   world := w',
                   trace := trace e @
                     [CallSignTransaction transaction,
                      SetState ((snapshot e)\<lparr> error :=
                        Some (case t of JsError m \<Rightarrow> m
                                      | NonError \<Rightarrow> ''Failed to sign transaction'') \<rparr>)] \<rparr>))
       \<and> (signTransaction gw transaction (world e) = (Inr signed, w') \<longrightarrow>
            signTx cfg gw rendered transaction e =
              (Inr signed,
               e\<lparr> world := w', trace := trace e @ [CallSignTransaction transaction] \<rparr>)
            \<and> error (snapshot (snd (signTx cfg gw rendered transaction e))) =
                error (snapshot e))"
  using assms by (cases t) (simp_all add: signTx_def invoke_def setState_def)

text \<open>
  A connected snapshot, the callback of its render, against a wallet that declines to
  sign, against one that signs, and against one that throws something that is not an
  \<open>Error\<close>.
\<close>

theorem signTx_gateway_outcome_witness:
  "isConnected stale_error_state \<and> \<not> isWrongNetwork stale_error_state
 \<and> fst (signTx testnet_config (connect_answers (Inl NonError)) stale_error_state ''tx''
      (session stale_error_state ())) = Inl (JsError ''User declined'')
 \<and> snapshot (snd (signTx testnet_config (connect_answers (Inl NonError))
      stale_error_state ''tx'' (session stale_error_state ()))) =
     \<lparr> address = Some ''G123'', isConnected = True, isConnecting = False,
       isDisconnecting = False, error = Some ''User declined'', isWalletAvailable = True,
       network = Some ''required-net'', isWrongNetwork = False \<rparr>
 \<and> signTx testnet_config (working_wallet ''required-net'') stale_error_state ''tx''
      (session stale_error_state True) =
     (Inr ''tx'',
      \<lparr> snapshot = stale_error_state, world = True, trace = [CallSignTransaction ''tx''] \<rparr>)
 \<and> error (snapshot (snd (signTx testnet_config (working_wallet ''required-net'')
      stale_error_state ''tx'' (session stale_error_state True)))) = Some ''stale''
 \<and> fst (signTx testnet_config network_read_fails stale_error_state ''tx''
      (session stale_error_state ())) = Inl NonError
 \<and> error (snapshot (snd (signTx testnet_config network_read_fails stale_error_state ''tx''
      (session stale_error_state ())))) = Some ''Failed to sign transaction''"
proof -
  have c: "isConnected stale_error_state" and n: "\<not> isWrongNetwork stale_error_state"
    by (simp_all add: stale_error_state_def)
  have stale: "error stale_error_state = Some ''stale''"
    by (simp add: stale_error_state_def)
  have declined: "signTransaction (connect_answers (Inl NonError)) ''tx''
      (world (session stale_error_state () :: (unit, string) env)) =
      (Inl (JsError ''User declined''), ())"
    by (simp add: connect_answers_def fixed_gateway_def)
  have signs: "signTransaction (working_wallet ''required-net'') ''tx''
      (world (session stale_error_state True :: (bool, string) env)) = (Inr ''tx'', True)"
    by (simp add: working_wallet_def session_def)
  have broken: "signTransaction network_read_fails ''tx''
      (world (session stale_error_state () :: (unit, string) env)) = (Inl NonError, ())"
    by (simp add: network_read_fails_def fixed_gateway_def)
  show ?thesis
    using c n declined signs broken
      signTx_gateway_outcome
        [OF c n,
         where e = "session stale_error_state () :: (unit, string) env"
           and gw = "connect_answers (Inl NonError)" and transaction = "''tx''"
           and t = "JsError ''User declined''" and w' = "()" and cfg = testnet_config]
      signTx_gateway_outcome
        [OF c n,
         where e = "session stale_error_state True :: (bool, string) env"
           and gw = "working_wallet ''required-net''" and transaction = "''tx''"
           and signed = "''tx''" and w' = True and cfg = testnet_config]
      signTx_gateway_outcome
        [OF c n,
         where e = "session stale_error_state () :: (unit, string) env"
           and gw = "network_read_fails" and transaction = "''tx''"
           and t = NonError and w' = "()" and cfg = testnet_config]
    by (simp add: session_def stale stale_error_state_def)
qed

subsection \<open>C10: what a successful refresh replaces\<close>

text \<open>
  C10: for every previous snapshot, a \<open>refresh\<close> whose reads all went through
  replaces \<open>isWalletAvailable\<close>, \<open>isConnected\<close>, \<open>address\<close>, \<open>network\<close>,
  \<open>isWrongNetwork\<close> and \<open>error\<close> and carries every other field over; in particular
  \<open>isConnecting\<close> and \<open>isDisconnecting\<close> are exactly as they were before the call.
\<close>

theorem refresh_success_frame:
  assumes "fst (refresh_reads gw e) = Inr (available, connected, addr, net)"
  shows "snapshot (refresh cfg gw e) =
           (snapshot e)\<lparr>
              isWalletAvailable := available,
              isConnected := connected,
              address := addr,
              network := net,
              isWrongNetwork :=
                (connected \<and> net \<noteq> None \<and> net \<noteq> Some (cfg_networkPassphrase cfg)),
              error := None \<rparr>
       \<and> isConnecting (snapshot (refresh cfg gw e)) = isConnecting (snapshot e)
       \<and> isDisconnecting (snapshot (refresh cfg gw e)) = isDisconnecting (snapshot e)"
  using refresh_reads_frame [of gw e]
  by (simp add: refresh_success [OF assms] setState_snapshot)

text \<open>A refresh while both flags happen to be set: both are still set afterwards.\<close>

theorem refresh_success_frame_witness:
  "fst (refresh_reads (working_wallet ''public-net'')
      (session (initialState\<lparr> isConnecting := True, isDisconnecting := True \<rparr>) True
        :: (bool, string) env)) =
     Inr (True, True, Some ''G123'', Some ''public-net'')
 \<and> snapshot (refresh testnet_config (working_wallet ''public-net'')
      (session (initialState\<lparr> isConnecting := True, isDisconnecting := True \<rparr>) True
        :: (bool, string) env)) =
     \<lparr> address = Some ''G123'', isConnected = True, isConnecting = True,
       isDisconnecting = True, error = None, isWalletAvailable = True,
       network = Some ''public-net'', isWrongNetwork = True \<rparr>"
proof -
  have h: "fst (refresh_reads (working_wallet ''public-net'')
      (session (initialState\<lparr> isConnecting := True, isDisconnecting := True \<rparr>) True
        :: (bool, string) env)) =
     Inr (True, True, Some ''G123'', Some ''public-net'')"
    by (simp add: refresh_reads_def await_def resolve_def invoke_def working_wallet_def
        session_def)
  show ?thesis
    using h refresh_success_frame [OF h, of testnet_config]
    by (simp add: session_def initialState_def testnet_config_def)
qed

end
